theory Spec2Isabelle
  imports Complex_Main
begin

section \<open>Data model of the inference service (src/api/app.py)\<close>

text \<open>
  Python floats are modelled as reals: rounding, infinities and NaN are outside the model.
  An exception of the Python code is the string of its message; the errors that leave a
  request handler are values of the type \<open>error\<close>.
\<close>

type_synonym exn = string

datatype error =
    HTTPException nat string
  | ValidationError "string list"
  | RuntimeError string

text \<open>The request body of \<open>/predict\<close>: the four fields of the pydantic class.\<close>

record IrisFeatures =
  sepal_length :: real
  sepal_width :: real
  petal_length :: real
  petal_width :: real

record PredictionResponse =
  prediction :: string
  prediction_id :: int
  confidence :: real
  probabilities :: "(string \<times> real) list"

record BatchPredictionResponse =
  predictions :: "PredictionResponse list"
  batch_size :: int

record HealthResponse =
  status :: string
  model_loaded :: bool
  timestamp :: string

text \<open>
  The model artifact is an opaque object with two query operations, each taking the
  two-dimensional feature array and either raising or returning one entry per row.
\<close>

record Model =
  m_predict :: "real list list \<Rightarrow> exn + int list"
  m_predict_proba :: "real list list \<Rightarrow> exn + real list list"

datatype call = Call_predict "real list list" | Call_predict_proba "real list list"

text \<open>
  The process state: the global \<open>model\<close> (\<open>None\<close> until one is loaded) and, as an
  observation of the effects, the list of the calls made to the model object so far.
\<close>

record app =
  model :: "Model option"
  inference_log :: "call list"

definition feature_names :: "string list" where
  "feature_names =
     [''sepal length (cm)'', ''sepal width (cm)'', ''petal length (cm)'', ''petal width (cm)'']"

definition target_names :: "string list" where
  "target_names = [''setosa'', ''versicolor'', ''virginica'']"

section \<open>Request validation (the Field constraints of IrisFeatures)\<close>

definition field_ok :: "real \<Rightarrow> bool" where
  "field_ok v \<longleftrightarrow> 0 \<le> v \<and> v \<le> 10"

definition valid_sample :: "IrisFeatures \<Rightarrow> bool" where
  "valid_sample f \<longleftrightarrow>
     field_ok (sepal_length f) \<and> field_ok (sepal_width f) \<and>
     field_ok (petal_length f) \<and> field_ok (petal_width f)"

definition offending_fields :: "IrisFeatures \<Rightarrow> string list" where
  "offending_fields f =
     (if field_ok (sepal_length f) then [] else [''sepal_length'']) @
     (if field_ok (sepal_width f) then [] else [''sepal_width'']) @
     (if field_ok (petal_length f) then [] else [''petal_length'']) @
     (if field_ok (petal_width f) then [] else [''petal_width''])"

definition validate_IrisFeatures :: "IrisFeatures \<Rightarrow> error + IrisFeatures" where
  "validate_IrisFeatures f =
     (if offending_fields f = [] then Inr f else Inl (ValidationError (offending_fields f)))"

fun validate_samples :: "IrisFeatures list \<Rightarrow> error + IrisFeatures list" where
  "validate_samples [] = Inr []"
| "validate_samples (f # fs) =
     (case validate_IrisFeatures f of
        Inl e \<Rightarrow> Inl e
      | Inr g \<Rightarrow> (case validate_samples fs of Inl e \<Rightarrow> Inl e | Inr gs \<Rightarrow> Inr (g # gs)))"

section \<open>Inference on one sample\<close>

definition py_index :: "'a list \<Rightarrow> int \<Rightarrow> exn + 'a" where
  "py_index xs i =
     (if 0 \<le> i \<and> i < int (length xs) then Inr (xs ! nat i)
      else if - int (length xs) \<le> i \<and> i < 0 then Inr (xs ! nat (int (length xs) + i))
      else Inl ''list index out of range'')"

definition first_row :: "'a list \<Rightarrow> exn + 'a" where
  "first_row xs = (case xs of [] \<Rightarrow> Inl ''index 0 is out of bounds'' | x # _ \<Rightarrow> Inr x)"

definition py_max :: "real list \<Rightarrow> exn + real" where
  "py_max xs = (case xs of [] \<Rightarrow> Inl ''max() arg is an empty sequence''
                | x # ys \<Rightarrow> Inr (fold max ys x))"

definition feature_array :: "IrisFeatures \<Rightarrow> real list list" where
  "feature_array f = [[sepal_length f, sepal_width f, petal_length f, petal_width f]]"

text \<open>
  The body of the \<open>try\<close> block of \<open>predict\<close>, which is also the body of the loop of
  \<open>predict_batch\<close>: the log is extended at each call of the model, also at one that raises.
\<close>

definition infer_one :: "Model \<Rightarrow> IrisFeatures \<Rightarrow> call list \<Rightarrow> (exn + PredictionResponse) \<times> call list" where
  "infer_one m f lg =
     (let X = feature_array f; lg1 = lg @ [Call_predict X] in
      case m_predict m X of
        Inl e \<Rightarrow> (Inl e, lg1)
      | Inr ids \<Rightarrow>
          (case first_row ids of
             Inl e \<Rightarrow> (Inl e, lg1)
           | Inr pid \<Rightarrow>
               (case py_index target_names pid of
                  Inl e \<Rightarrow> (Inl e, lg1)
                | Inr pname \<Rightarrow>
                    (let lg2 = lg1 @ [Call_predict_proba X] in
                     case m_predict_proba m X of
                       Inl e \<Rightarrow> (Inl e, lg2)
                     | Inr rows \<Rightarrow>
                         (case first_row rows of
                            Inl e \<Rightarrow> (Inl e, lg2)
                          | Inr probs \<Rightarrow>
                              (case py_max probs of
                                 Inl e \<Rightarrow> (Inl e, lg2)
                               | Inr conf \<Rightarrow>
                                   (Inr \<lparr>prediction = pname, prediction_id = pid,
                                         confidence = conf,
                                         probabilities = zip target_names probs\<rparr>, lg2)))))))"

section \<open>Request handlers\<close>

definition health_check :: "app \<Rightarrow> (error + HealthResponse) \<times> app" where
  "health_check st =
     (if model st = None then (Inl (HTTPException 503 ''Model not loaded''), st)
      else (Inr \<lparr>status = ''healthy'', model_loaded = (model st \<noteq> None),
                 timestamp = ''2024-01-01T00:00:00Z''\<rparr>, st))"

definition predict :: "app \<Rightarrow> IrisFeatures \<Rightarrow> (error + PredictionResponse) \<times> app" where
  "predict st features =
     (case model st of
        None \<Rightarrow> (Inl (HTTPException 503 ''Model not loaded''), st)
      | Some m \<Rightarrow>
          (case infer_one m features (inference_log st) of
             (Inl e, lg) \<Rightarrow>
               (Inl (HTTPException 500 (''Prediction failed: '' @ e)), st\<lparr>inference_log := lg\<rparr>)
           | (Inr r, lg) \<Rightarrow> (Inr r, st\<lparr>inference_log := lg\<rparr>)))"

fun batch_loop :: "Model \<Rightarrow> IrisFeatures list \<Rightarrow> PredictionResponse list \<Rightarrow> call list
    \<Rightarrow> (exn + PredictionResponse list) \<times> call list" where
  "batch_loop m [] preds lg = (Inr preds, lg)"
| "batch_loop m (s # ss) preds lg =
     (case infer_one m s lg of
        (Inl e, lg') \<Rightarrow> (Inl e, lg')
      | (Inr r, lg') \<Rightarrow> batch_loop m ss (preds @ [r]) lg')"

definition predict_batch :: "app \<Rightarrow> IrisFeatures list \<Rightarrow> (error + BatchPredictionResponse) \<times> app" where
  "predict_batch st samples =
     (case model st of
        None \<Rightarrow> (Inl (HTTPException 503 ''Model not loaded''), st)
      | Some m \<Rightarrow>
          if length samples > 100
          then (Inl (HTTPException 400 ''Batch size cannot exceed 100 samples''), st)
          else (case batch_loop m samples [] (inference_log st) of
                  (Inl e, lg) \<Rightarrow>
                    (Inl (HTTPException 500 (''Batch prediction failed: '' @ e)),
                     st\<lparr>inference_log := lg\<rparr>)
                | (Inr preds, lg) \<Rightarrow>
                    (Inr \<lparr>predictions = preds, batch_size = int (length preds)\<rparr>,
                     st\<lparr>inference_log := lg\<rparr>)))"

text \<open>
  The endpoints as the framework runs them: the body is validated against the pydantic
  class first, and the handler is called only with a body that passed.
\<close>

definition post_predict :: "app \<Rightarrow> IrisFeatures \<Rightarrow> (error + PredictionResponse) \<times> app" where
  "post_predict st body =
     (case validate_IrisFeatures body of
        Inl e \<Rightarrow> (Inl e, st)
      | Inr features \<Rightarrow> predict st features)"

definition post_predict_batch :: "app \<Rightarrow> IrisFeatures list \<Rightarrow> (error + BatchPredictionResponse) \<times> app" where
  "post_predict_batch st body =
     (case validate_samples body of
        Inl e \<Rightarrow> (Inl e, st)
      | Inr samples \<Rightarrow> predict_batch st samples)"

text \<open>The error taxonomy of the specification, read off the errors of the handlers.\<close>

fun is_ValidationError :: "error \<Rightarrow> bool" where
  "is_ValidationError (ValidationError _) = True"
| "is_ValidationError (HTTPException c _) = (c = 400 \<or> c = 422)"
| "is_ValidationError (RuntimeError _) = False"

fun is_ServiceUnavailable :: "error \<Rightarrow> bool" where
  "is_ServiceUnavailable (HTTPException c _) = (c = 503)"
| "is_ServiceUnavailable _ = False"

section \<open>Startup: load_model\<close>

text \<open>
  The environment of \<open>load_model\<close>: which paths exist, what \<open>joblib.load\<close> gives for a
  path, and the outcomes of the steps of the fallback. The class IrisModel
  (src/models/iris_model.py) is not among the sources: \<open>train_fresh\<close> is the outcome of
  importing it, constructing it with its default parameters, loading the data and
  training (the fitted classifier, or the exception raised on the way), and
  \<open>save_model\<close> the outcome of its method of that name.
\<close>

record env =
  path_exists :: "string \<Rightarrow> bool"
  joblib_load :: "string \<Rightarrow> exn + Model"
  train_fresh :: "exn + Model"
  makedirs :: "string \<Rightarrow> exn + unit"
  save_model :: "Model \<Rightarrow> string \<Rightarrow> exn + unit"

definition model_paths :: "string list" where
  "model_paths = [''models/iris_model.joblib'', ''/app/models/iris_model.joblib'', ''iris_model.joblib'']"

fun try_paths :: "env \<Rightarrow> string list \<Rightarrow> (string \<times> Model) option" where
  "try_paths ev [] = None"
| "try_paths ev (p # ps) =
     (if path_exists ev p
      then (case joblib_load ev p of Inr m \<Rightarrow> Some (p, m) | Inl e \<Rightarrow> try_paths ev ps)
      else try_paths ev ps)"

text \<open>The fallback, with the list of the model files it has written.\<close>

definition train_and_save :: "env \<Rightarrow> (exn + Model) \<times> (string \<times> Model) list" where
  "train_and_save ev =
     (case train_fresh ev of
        Inl e \<Rightarrow> (Inl e, [])
      | Inr m \<Rightarrow>
          (case makedirs ev ''models'' of
             Inl e \<Rightarrow> (Inl e, [])
           | Inr _ \<Rightarrow>
               (case save_model ev m ''models/iris_model.joblib'' of
                  Inl e \<Rightarrow> (Inl e, [])
                | Inr _ \<Rightarrow> (Inr m, [(''models/iris_model.joblib'', m)]))))"

definition load_model :: "env \<Rightarrow> app \<Rightarrow> (error + unit) \<times> app \<times> (string \<times> Model) list" where
  "load_model ev st =
     (case try_paths ev model_paths of
        Some (p, m) \<Rightarrow> (Inr (), st\<lparr>model := Some m\<rparr>, [])
      | None \<Rightarrow>
          (case train_and_save ev of
             (Inl e, written) \<Rightarrow> (Inl (RuntimeError ''Could not load or train model''), st, written)
           | (Inr m, written) \<Rightarrow> (Inr (), st\<lparr>model := Some m\<rparr>, written)))"

definition loadable :: "env \<Rightarrow> string \<Rightarrow> bool" where
  "loadable ev p \<longleftrightarrow> path_exists ev p \<and> (case joblib_load ev p of Inr _ \<Rightarrow> True | Inl _ \<Rightarrow> False)"


section \<open>The root endpoint\<close>

datatype json = JStr string | JObj "(string \<times> json) list"

datatype response = FileResponse string | JSONResponse json

datatype py_exception = FileNotFoundError string | OtherException string

datatype sent = Sent_file string | Sent_json json

definition api_description :: json where
  "api_description = JObj
     [(''message'', JStr ''Iris Classification API''),
      (''version'', JStr ''1.0.0''),
      (''description'', JStr ''MLOps Demo - Classify iris flowers using machine learning''),
      (''endpoints'', JObj
         [(''predict'', JStr ''/predict - Single prediction''),
          (''predict_batch'', JStr ''/predict/batch - Batch predictions''),
          (''health'', JStr ''/health - Health check''),
          (''docs'', JStr ''/docs - API documentation'')])]"

text \<open>
  The class FileResponse belongs to the web framework (Starlette), not to the repository.
  Its constructor records the path and the headers and does not look at the file system;
  the file is examined when the response is sent, and a missing file raises a
  RuntimeError there. The first argument is the file system: which paths are files.
\<close>

definition new_FileResponse :: "(string \<Rightarrow> bool) \<Rightarrow> string \<Rightarrow> py_exception + response" where
  "new_FileResponse is_file path = Inr (FileResponse path)"

fun send_response :: "(string \<Rightarrow> bool) \<Rightarrow> response \<Rightarrow> py_exception + sent" where
  "send_response is_file (FileResponse path) =
     (if is_file path then Inr (Sent_file path)
      else Inl (OtherException (''File at path '' @ path @ '' does not exist.'')))"
| "send_response is_file (JSONResponse j) = Inr (Sent_json j)"

definition root :: "(string \<Rightarrow> bool) \<Rightarrow> py_exception + response" where
  "root is_file =
     (case new_FileResponse is_file ''static/index.html'' of
        Inr r \<Rightarrow> Inr r
      | Inl (FileNotFoundError _) \<Rightarrow> Inr (JSONResponse api_description)
      | Inl e \<Rightarrow> Inl e)"

text \<open>A request to \<open>/\<close>: the handler, then the sending of what it returned; an exception
  that escapes either is answered by the framework with the status 500.\<close>

definition get_root :: "(string \<Rightarrow> bool) \<Rightarrow> error + sent" where
  "get_root is_file =
     (case root is_file of
        Inl e \<Rightarrow> Inl (HTTPException 500 ''Internal Server Error'')
      | Inr r \<Rightarrow>
          (case send_response is_file r of
             Inl e \<Rightarrow> Inl (HTTPException 500 ''Internal Server Error'')
           | Inr s \<Rightarrow> Inr s))"

section \<open>split_data\<close>

text \<open>
  \<open>train_test_split\<close> belongs to scikit-learn. What the model keeps of it is where its
  randomness comes from: with \<open>random_state = None\<close> it draws from the global generator
  of numpy, with an integer it draws from a generator freshly seeded with that integer.
  The rest of it (the sizes, the stratified allocation, the permutation) is the parameter
  \<open>splitter\<close>, a function of the generator it is given and of its other arguments;
  \<open>seeded\<close> is the seeding function and \<open>global\<close> the state of the global generator.
\<close>

definition check_random_state :: "(int \<Rightarrow> 'g) \<Rightarrow> 'g \<Rightarrow> int option \<Rightarrow> 'g" where
  "check_random_state seeded global random_state =
     (case random_state of None \<Rightarrow> global | Some seed \<Rightarrow> seeded seed)"

definition train_test_split ::
  "(int \<Rightarrow> 'g) \<Rightarrow> ('g \<Rightarrow> 'x \<Rightarrow> 'y \<Rightarrow> real \<Rightarrow> 'y option \<Rightarrow> 'r) \<Rightarrow> 'g
     \<Rightarrow> 'x \<Rightarrow> 'y \<Rightarrow> real \<Rightarrow> int option \<Rightarrow> 'y option \<Rightarrow> 'r" where
  "train_test_split seeded splitter global X y test_size random_state stratify =
     splitter (check_random_state seeded global random_state) X y test_size stratify"

definition split_data ::
  "(int \<Rightarrow> 'g) \<Rightarrow> ('g \<Rightarrow> 'x \<Rightarrow> 'y \<Rightarrow> real \<Rightarrow> 'y option \<Rightarrow> 'r) \<Rightarrow> 'g
     \<Rightarrow> 'x \<Rightarrow> 'y \<Rightarrow> real \<Rightarrow> int \<Rightarrow> 'r" where
  "split_data seeded splitter global X y test_size random_state =
     train_test_split seeded splitter global X y test_size (Some random_state) (Some y)"

section \<open>Inputs for running the definitions\<close>

definition sample_setosa :: IrisFeatures where
  "sample_setosa = \<lparr>sepal_length = 51/10, sepal_width = 35/10, petal_length = 14/10, petal_width = 2/10\<rparr>"

definition stump_model :: Model where
  "stump_model =
     \<lparr>m_predict = (\<lambda>X. Inr (map (\<lambda>row. if row ! 2 < 5/2 then 0 else if row ! 3 < 17/10 then 1 else 2) X)),
      m_predict_proba = (\<lambda>X. Inr (map (\<lambda>row. if row ! 2 < 5/2 then [1, 0, 0]
                                           else if row ! 3 < 17/10 then [0, 9/10, 1/10]
                                           else [0, 1/10, 9/10]) X))\<rparr>"

definition app_unloaded :: app where
  "app_unloaded = \<lparr>model = None, inference_log = []\<rparr>"

definition app_loaded :: app where
  "app_loaded = \<lparr>model = Some stump_model, inference_log = []\<rparr>"

definition sample_versicolor :: IrisFeatures where
  "sample_versicolor = \<lparr>sepal_length = 7, sepal_width = 32/10, petal_length = 47/10, petal_width = 14/10\<rparr>"

definition broken_model :: Model where
  "broken_model = \<lparr>m_predict = (\<lambda>X. Inr (map (\<lambda>row. 3) X)),
                    m_predict_proba = (\<lambda>X. Inr (map (\<lambda>row. [1, 0, 0]) X))\<rparr>"

definition skewed_model :: Model where
  "skewed_model = \<lparr>m_predict = (\<lambda>X. Inr (map (\<lambda>row. 0) X)),
                    m_predict_proba = (\<lambda>X. Inr (map (\<lambda>row. [2, -1, 0]) X))\<rparr>"

definition sample_too_long :: IrisFeatures where
  "sample_too_long = \<lparr>sepal_length = 15, sepal_width = 3, petal_length = 4, petal_width = 1\<rparr>"

definition sample_boundary :: IrisFeatures where
  "sample_boundary = \<lparr>sepal_length = 0, sepal_width = 10, petal_length = 10, petal_width = 0\<rparr>"


definition env_no_file :: env where
  "env_no_file =
     \<lparr>path_exists = (\<lambda>p. False),
      joblib_load = (\<lambda>p. Inl ''No such file or directory''),
      train_fresh = Inr stump_model,
      makedirs = (\<lambda>d. Inr ()),
      save_model = (\<lambda>m p. Inr ())\<rparr>"


definition no_static_files :: "string \<Rightarrow> bool" where
  "no_static_files path = False"

text \<open>A splitter for running the definitions: the test set is a block of the rows that
  starts at the position the generator gives.\<close>

definition block_splitter :: "nat \<Rightarrow> 'a list \<Rightarrow> int list \<Rightarrow> real \<Rightarrow> int list option
    \<Rightarrow> ('a list \<times> 'a list)" where
  "block_splitter g X y test_size stratify =
     (let n_test = nat \<lceil>test_size * real (length X)\<rceil>; X' = rotate g X
      in (drop n_test X', take n_test X'))"

section \<open>Validation of the request body\<close>

lemma validate_IrisFeatures_Inr_iff:
  "validate_IrisFeatures f = Inr g \<longleftrightarrow> valid_sample f \<and> g = f"
  by (auto simp: validate_IrisFeatures_def offending_fields_def valid_sample_def split: if_splits)

lemma validate_IrisFeatures_Inl:
  "validate_IrisFeatures f = Inl e \<Longrightarrow> \<not> valid_sample f \<and> e = ValidationError (offending_fields f) \<and> offending_fields f \<noteq> []"
  by (auto simp: validate_IrisFeatures_def offending_fields_def valid_sample_def split: if_splits)

lemma validate_samples_Inr_iff:
  "validate_samples fs = Inr gs \<longleftrightarrow> (\<forall>f\<in>set fs. valid_sample f) \<and> gs = fs"
proof (induction fs arbitrary: gs)
  case Nil
  show ?case by auto
next
  case (Cons f fs)
  show ?case
  proof (cases "validate_IrisFeatures f")
    case (Inl e)
    with validate_IrisFeatures_Inl [OF Inl] show ?thesis by simp
  next
    case (Inr g)
    then have g: "valid_sample f" "g = f" by (simp_all add: validate_IrisFeatures_Inr_iff)
    show ?thesis
    proof (cases "validate_samples fs")
      case (Inl e)
      with Cons.IH [of fs] have "\<not> (\<forall>f\<in>set fs. valid_sample f)" by auto
      with Inl Inr show ?thesis by simp
    next
      case r: (Inr hs)
      with Cons.IH [of hs] have "(\<forall>f\<in>set fs. valid_sample f)" "hs = fs" by auto
      with r Inr g show ?thesis by auto
    qed
  qed
qed

lemma validate_samples_Inl:
  "validate_samples fs = Inl e \<Longrightarrow> is_ValidationError e \<and> (\<exists>f\<in>set fs. \<not> valid_sample f)"
proof (induction fs)
  case Nil
  then show ?case by simp
next
  case (Cons f fs)
  then show ?case
    by (auto split: sum.splits dest: validate_IrisFeatures_Inl simp: validate_IrisFeatures_Inr_iff)
qed

lemma valid_sample_setosa: "valid_sample sample_setosa"
  by (simp add: valid_sample_def field_ok_def sample_setosa_def)

lemma valid_sample_versicolor: "valid_sample sample_versicolor"
  by (simp add: valid_sample_def field_ok_def sample_versicolor_def)

lemma stump_setosa:
  "m_predict stump_model (feature_array sample_setosa) = Inr [0]"
  "m_predict_proba stump_model (feature_array sample_setosa) = Inr [[1, 0, 0]]"
  by (simp_all add: stump_model_def feature_array_def sample_setosa_def)

lemma stump_versicolor:
  "m_predict stump_model (feature_array sample_versicolor) = Inr [1]"
  "m_predict_proba stump_model (feature_array sample_versicolor) = Inr [[0, 9/10, 1/10]]"
  by (simp_all add: stump_model_def feature_array_def sample_versicolor_def)

text \<open>
  C2: a body with at least one of the four fields outside [0,10] is refused with a
  ValidationError that names the offending fields, whatever the state of the service: the
  state is returned as it was, so the handler has not run and the model has not been
  called (the inference log is unchanged). A body whose fields are all at the boundary
  values 0 and 10 passes the validation and reaches the handler.
\<close>

theorem post_predict_rejects_out_of_range:
  "(\<not> valid_sample body \<longrightarrow>
      post_predict st body = (Inl (ValidationError (offending_fields body)), st)
      \<and> offending_fields body \<noteq> [])
   \<and> (sepal_length b \<in> {0, 10} \<and> sepal_width b \<in> {0, 10} \<and> petal_length b \<in> {0, 10}
        \<and> petal_width b \<in> {0, 10}
      \<longrightarrow> validate_IrisFeatures b = Inr b \<and> post_predict st b = predict st b)"
proof (intro conjI impI)
  assume inv: "\<not> valid_sample body"
  then obtain e where e: "validate_IrisFeatures body = Inl e"
    by (cases "validate_IrisFeatures body") (auto simp: validate_IrisFeatures_Inr_iff)
  from validate_IrisFeatures_Inl [OF e] e
  show "post_predict st body = (Inl (ValidationError (offending_fields body)), st)"
    and "offending_fields body \<noteq> []"
    by (simp_all add: post_predict_def)
next
  assume "sepal_length b \<in> {0, 10} \<and> sepal_width b \<in> {0, 10} \<and> petal_length b \<in> {0, 10}
        \<and> petal_width b \<in> {0, 10}"
  then have "valid_sample b" by (auto simp: valid_sample_def field_ok_def)
  then have v: "validate_IrisFeatures b = Inr b" by (simp add: validate_IrisFeatures_Inr_iff)
  then show "validate_IrisFeatures b = Inr b" .
  from v show "post_predict st b = predict st b" by (simp add: post_predict_def)
qed

theorem post_predict_rejects_out_of_range_witness:
  "\<not> valid_sample sample_too_long
   \<and> post_predict app_loaded sample_too_long = (Inl (ValidationError [''sepal_length'']), app_loaded)
   \<and> validate_IrisFeatures sample_boundary = Inr sample_boundary
   \<and> post_predict app_loaded sample_boundary = predict app_loaded sample_boundary"
proof -
  have h1: "\<not> valid_sample sample_too_long"
    by (simp add: valid_sample_def field_ok_def sample_too_long_def)
  have h2: "sepal_length sample_boundary \<in> {0, 10} \<and> sepal_width sample_boundary \<in> {0, 10}
      \<and> petal_length sample_boundary \<in> {0, 10} \<and> petal_width sample_boundary \<in> {0, 10}"
    by (simp add: sample_boundary_def)
  have h3: "offending_fields sample_too_long = [''sepal_length'']"
    by (simp add: offending_fields_def field_ok_def sample_too_long_def)
  from post_predict_rejects_out_of_range [of sample_too_long app_loaded sample_boundary] h1 h2 h3
  show ?thesis by simp
qed

section \<open>Single prediction\<close>

text \<open>The result of one inference does not depend on the log, and the log only grows.\<close>

lemma infer_one_fst: "fst (infer_one m f lg) = fst (infer_one m f [])"
  by (simp add: infer_one_def Let_def split: sum.splits)

lemma py_max_Max: "py_max (x # xs) = Inr (Max (set (x # xs)))"
  using Max.set_eq_fold [of x xs] by (simp add: py_max_def)

lemma py_index_target_names:
  "py_index target_names i = Inr n \<Longrightarrow> n \<in> set target_names"
  by (auto simp: py_index_def split: if_splits)

lemma py_index_in_range:
  "0 \<le> i \<Longrightarrow> i < int (length xs) \<Longrightarrow> py_index xs i = Inr (xs ! nat i)"
  by (simp add: py_index_def)

lemma infer_one_success:
  assumes "m_predict m (feature_array f) = Inr (k # ks)" "0 \<le> k" "k < 3"
    and "m_predict_proba m (feature_array f) = Inr (ps # pss)" "ps \<noteq> []"
  shows "infer_one m f lg =
     (Inr \<lparr>prediction = target_names ! nat k, prediction_id = k, confidence = Max (set ps),
           probabilities = zip target_names ps\<rparr>,
      lg @ [Call_predict (feature_array f), Call_predict_proba (feature_array f)])"
proof -
  from assms(2,3) have idx: "py_index target_names k = Inr (target_names ! nat k)"
    by (intro py_index_in_range) (simp_all add: target_names_def)
  from assms(5) obtain p qs where ps: "ps = p # qs" by (cases ps) auto
  have mx: "py_max ps = Inr (Max (set ps))" unfolding ps by (rule py_max_Max)
  show ?thesis
    by (simp add: infer_one_def Let_def assms(1,4) first_row_def idx mx)
qed

lemma batch_loop_success:
  assumes "\<forall>s\<in>set ss. \<exists>r. fst (infer_one m s []) = Inr r"
  shows "\<exists>rs. fst (batch_loop m ss preds lg) = Inr (preds @ rs) \<and> length rs = length ss
          \<and> (\<forall>i<length ss. fst (infer_one m (ss ! i) []) = Inr (rs ! i))"
  using assms
proof (induction ss arbitrary: preds lg)
  case Nil
  then show ?case by simp
next
  case (Cons s ss)
  from Cons.prems obtain r where r: "fst (infer_one m s []) = Inr r" by auto
  then have "fst (infer_one m s lg) = Inr r" using infer_one_fst [of m s lg] by simp
  then obtain lg' where one: "infer_one m s lg = (Inr r, lg')"
    by (cases "infer_one m s lg") auto
  from Cons.prems have "\<forall>s\<in>set ss. \<exists>r. fst (infer_one m s []) = Inr r" by simp
  from Cons.IH [OF this, of "preds @ [r]" lg']
  obtain rs where rs: "fst (batch_loop m ss (preds @ [r]) lg') = Inr ((preds @ [r]) @ rs)"
      "length rs = length ss" "\<forall>i<length ss. fst (infer_one m (ss ! i) []) = Inr (rs ! i)"
    by blast
  have "\<forall>i<length (s # ss). fst (infer_one m ((s # ss) ! i) []) = Inr ((r # rs) ! i)"
  proof (intro allI impI)
    fix i assume "i < length (s # ss)"
    then show "fst (infer_one m ((s # ss) ! i) []) = Inr ((r # rs) ! i)"
      using r rs(3) by (cases i) auto
  qed
  with rs(1,2) one show ?case
    by (intro exI [of _ "r # rs"]) simp
qed

lemma predict_fst:
  "model st = Some m \<Longrightarrow> fst (infer_one m f []) = Inr r \<Longrightarrow> fst (predict st f) = Inr r"
proof -
  assume a: "model st = Some m" "fst (infer_one m f []) = Inr r"
  then have "fst (infer_one m f (inference_log st)) = Inr r"
    using infer_one_fst [of m f "inference_log st"] by simp
  then obtain lg where "infer_one m f (inference_log st) = (Inr r, lg)"
    by (cases "infer_one m f (inference_log st)") auto
  with a(1) show ?thesis by (simp add: predict_def)
qed

text \<open>The response to a valid sample when the loaded model answers as the model artifact
  of the data model does.\<close>

lemma post_predict_loaded:
  assumes "valid_sample body" and "model st = Some m"
    and "m_predict m (feature_array body) = Inr (k # ks)" and "k \<in> {0, 1, 2}"
    and "m_predict_proba m (feature_array body) = Inr (ps # pss)" and "length ps = 3"
    and "\<forall>p\<in>set ps. 0 \<le> p \<and> p \<le> 1" and "\<bar>sum_list ps - 1\<bar> \<le> eps"
  shows "\<exists>r. fst (post_predict st body) = Inr r
     \<and> prediction r \<in> set target_names
     \<and> prediction r = target_names ! nat (prediction_id r)
     \<and> 0 \<le> confidence r \<and> confidence r \<le> 1
     \<and> confidence r = Max (set (map snd (probabilities r)))
     \<and> map fst (probabilities r) = target_names
     \<and> \<bar>sum_list (map snd (probabilities r)) - 1\<bar> \<le> eps"
proof -
  let ?r = "\<lparr>prediction = target_names ! nat k, prediction_id = k, confidence = Max (set ps),
           probabilities = zip target_names ps\<rparr>"
  from assms(6) have ne: "ps \<noteq> []" by auto
  from assms(4) have k: "0 \<le> k" "k < 3" by auto
  from infer_one_success [OF assms(3) k assms(5) ne, of "[]"]
  have "fst (infer_one m body []) = Inr ?r" by simp
  from predict_fst [OF assms(2) this] assms(1)
  have res: "fst (post_predict st body) = Inr ?r"
    by (simp add: post_predict_def validate_IrisFeatures_def valid_sample_def offending_fields_def)
  have len: "length target_names = length ps" using assms(6) by (simp add: target_names_def)
  have name: "target_names ! nat k \<in> set target_names"
    using k by (intro nth_mem) (simp add: target_names_def)
  have mx: "Max (set ps) \<in> set ps" using ne by (intro Max_in) simp_all
  with assms(7) have conf: "0 \<le> Max (set ps)" "Max (set ps) \<le> 1" by auto
  from res name conf len assms(8) show ?thesis
    by (intro exI [of _ ?r]) simp
qed

lemma post_predict_unloaded:
  "valid_sample body \<Longrightarrow> model st = None \<Longrightarrow>
     post_predict st body = (Inl (HTTPException 503 ''Model not loaded''), st)"
  by (simp add: post_predict_def validate_IrisFeatures_Inr_iff [THEN iffD2] predict_def)

text \<open>
  C1, as amended: for every valid sample, when no model is loaded predict fails with the
  503 error "Model not loaded" (ServiceUnavailable) and leaves the state, and with it the
  inference log, as it was; when a model is loaded and that model answers the sample with
  a class index in {0,1,2} and with a row of three probabilities, each in [0,1], whose sum
  is within eps of 1, predict returns a response whose class name is the entry of the
  table of the three names at the returned index, whose confidence lies in [0,1] and is
  the maximum of the values of the returned distribution, and whose distribution is keyed
  by the three class names, in the order of the table, with values that sum to 1 within
  eps.
\<close>

theorem predict_amended:
  assumes "valid_sample body"
  shows "(model st = None \<longrightarrow>
            post_predict st body = (Inl (HTTPException 503 ''Model not loaded''), st)
            \<and> is_ServiceUnavailable (HTTPException 503 ''Model not loaded''))
     \<and> (model st = Some m
          \<and> m_predict m (feature_array body) = Inr (k # ks) \<and> k \<in> {0, 1, 2}
          \<and> m_predict_proba m (feature_array body) = Inr (ps # pss) \<and> length ps = 3
          \<and> (\<forall>p\<in>set ps. 0 \<le> p \<and> p \<le> 1) \<and> \<bar>sum_list ps - 1\<bar> \<le> eps
        \<longrightarrow> (\<exists>r. fst (post_predict st body) = Inr r
              \<and> prediction r \<in> set target_names
              \<and> prediction r = target_names ! nat (prediction_id r)
              \<and> 0 \<le> confidence r \<and> confidence r \<le> 1
              \<and> confidence r = Max (set (map snd (probabilities r)))
              \<and> map fst (probabilities r) = target_names
              \<and> \<bar>sum_list (map snd (probabilities r)) - 1\<bar> \<le> eps))"
proof (intro conjI impI)
  assume "model st = None"
  with assms show "post_predict st body = (Inl (HTTPException 503 ''Model not loaded''), st)"
    by (rule post_predict_unloaded)
next
  show "is_ServiceUnavailable (HTTPException 503 ''Model not loaded'')" by simp
next
  assume a: "model st = Some m
          \<and> m_predict m (feature_array body) = Inr (k # ks) \<and> k \<in> {0, 1, 2}
          \<and> m_predict_proba m (feature_array body) = Inr (ps # pss) \<and> length ps = 3
          \<and> (\<forall>p\<in>set ps. 0 \<le> p \<and> p \<le> 1) \<and> \<bar>sum_list ps - 1\<bar> \<le> eps"
  then have h: "model st = Some m" "m_predict m (feature_array body) = Inr (k # ks)"
    "k \<in> {0, 1, 2}" "m_predict_proba m (feature_array body) = Inr (ps # pss)" "length ps = 3"
    "\<forall>p\<in>set ps. 0 \<le> p \<and> p \<le> 1" "\<bar>sum_list ps - 1\<bar> \<le> eps"
    by blast+
  from post_predict_loaded [OF assms h]
  show "\<exists>r. fst (post_predict st body) = Inr r
              \<and> prediction r \<in> set target_names
              \<and> prediction r = target_names ! nat (prediction_id r)
              \<and> 0 \<le> confidence r \<and> confidence r \<le> 1
              \<and> confidence r = Max (set (map snd (probabilities r)))
              \<and> map fst (probabilities r) = target_names
              \<and> \<bar>sum_list (map snd (probabilities r)) - 1\<bar> \<le> eps" .
qed

theorem predict_amended_witness:
  "valid_sample sample_setosa
   \<and> model app_unloaded = None
   \<and> post_predict app_unloaded sample_setosa
       = (Inl (HTTPException 503 ''Model not loaded''), app_unloaded)
   \<and> model app_loaded = Some stump_model
   \<and> m_predict stump_model (feature_array sample_setosa) = Inr [0]
   \<and> m_predict_proba stump_model (feature_array sample_setosa) = Inr [[1, 0, 0]]
   \<and> (\<exists>r. fst (post_predict app_loaded sample_setosa) = Inr r
        \<and> prediction r \<in> set target_names
        \<and> 0 \<le> confidence r \<and> confidence r \<le> 1
        \<and> confidence r = Max (set (map snd (probabilities r)))
        \<and> map fst (probabilities r) = target_names
        \<and> \<bar>sum_list (map snd (probabilities r)) - 1\<bar> \<le> 1 / 1000000)"
proof -
  have h1: "model app_unloaded = None" by (simp add: app_unloaded_def)
  have h2: "model app_loaded = Some stump_model" by (simp add: app_loaded_def)
  have h4: "(0::int) \<in> {0, 1, 2}" by simp
  have h6: "length [1, 0, 0::real] = 3" by simp
  have h7: "\<forall>p\<in>set [1, 0, 0::real]. 0 \<le> p \<and> p \<le> 1" by simp
  have h8: "\<bar>sum_list [1, 0, 0::real] - 1\<bar> \<le> 1 / 1000000" by simp
  note u = predict_amended [OF valid_sample_setosa, of app_unloaded stump_model 0 "[]" "[1, 0, 0]" "[]" "1 / 1000000"]
  note l = predict_amended [OF valid_sample_setosa, of app_loaded stump_model 0 "[]" "[1, 0, 0]" "[]" "1 / 1000000"]
  from u h1 have r1: "post_predict app_unloaded sample_setosa
       = (Inl (HTTPException 503 ''Model not loaded''), app_unloaded)" by blast
  from l h2 stump_setosa h4 h6 h7 h8
  have r2: "\<exists>r. fst (post_predict app_loaded sample_setosa) = Inr r
        \<and> prediction r \<in> set target_names
        \<and> 0 \<le> confidence r \<and> confidence r \<le> 1
        \<and> confidence r = Max (set (map snd (probabilities r)))
        \<and> map fst (probabilities r) = target_names
        \<and> \<bar>sum_list (map snd (probabilities r)) - 1\<bar> \<le> 1 / 1000000" by blast
  from valid_sample_setosa h1 r1 h2 stump_setosa r2 show ?thesis by blast
qed

text \<open>
  Why the amended claim says how the loaded model answers: the handler copies what the
  model returns and checks none of it. A loaded model that answers with the index 3 makes
  the lookup of the class name raise, and the request fails with the status 500; one that
  answers with the row [2, -1, 0] gets it back as the distribution, with the confidence 2.
\<close>

lemma predict_class_index_out_of_table:
  "fst (post_predict \<lparr>model = Some broken_model, inference_log = []\<rparr> sample_setosa)
     = Inl (HTTPException 500 ''Prediction failed: list index out of range'')"
  using valid_sample_setosa
  by (simp add: post_predict_def validate_IrisFeatures_Inr_iff [THEN iffD2] predict_def
      infer_one_def Let_def broken_model_def feature_array_def first_row_def py_index_def
      target_names_def)

lemma predict_probabilities_out_of_range:
  "fst (post_predict \<lparr>model = Some skewed_model, inference_log = []\<rparr> sample_setosa)
     = Inr \<lparr>prediction = ''setosa'', prediction_id = 0, confidence = 2,
            probabilities = [(''setosa'', 2), (''versicolor'', -1), (''virginica'', 0)]\<rparr>"
  using valid_sample_setosa
  by (simp add: post_predict_def validate_IrisFeatures_Inr_iff [THEN iffD2] predict_def
      infer_one_def Let_def skewed_model_def feature_array_def first_row_def py_index_def
      py_max_def target_names_def)

text \<open>
  C1 as stated fails: a valid sample sent while no model is loaded gets the 503 error
  "Model not loaded" and no prediction.
\<close>

theorem predict_unloaded_counterexample:
  "valid_sample sample_setosa
   \<and> fst (post_predict app_unloaded sample_setosa) = Inl (HTTPException 503 ''Model not loaded'')"
  using valid_sample_setosa
  by (simp add: post_predict_def validate_IrisFeatures_Inr_iff [THEN iffD2] predict_def app_unloaded_def)

section \<open>Batch prediction\<close>

text \<open>
  C3, as amended: while a model is loaded, every batch of more than 100 samples fails
  with a ValidationError (the error of the body validation if a sample is out of range,
  the 400 error of the batch size otherwise) and leaves the state, and with it the
  inference log, as it was: no inference has run and no result is produced. Every batch
  of at most 100 valid samples, sent while a model is loaded on which inference succeeds
  for each sample, returns one result per sample, the i-th result being what predict
  returns for the i-th sample, with batch_size the number of samples.
\<close>

theorem predict_batch_amended:
  "(model st \<noteq> None \<and> length body > 100 \<longrightarrow>
      (\<exists>e. post_predict_batch st body = (Inl e, st) \<and> is_ValidationError e))
   \<and> (model st = Some m \<and> length body \<le> 100 \<and> (\<forall>s\<in>set body. valid_sample s)
        \<and> (\<forall>s\<in>set body. \<exists>r. fst (infer_one m s []) = Inr r) \<longrightarrow>
      (\<exists>rs. fst (post_predict_batch st body)
               = Inr \<lparr>predictions = rs, batch_size = int (length body)\<rparr>
           \<and> length rs = length body
           \<and> (\<forall>i<length body. fst (post_predict st (body ! i)) = Inr (rs ! i))))"
proof (intro conjI impI)
  assume a: "model st \<noteq> None \<and> length body > 100"
  show "\<exists>e. post_predict_batch st body = (Inl e, st) \<and> is_ValidationError e"
  proof (cases "validate_samples body")
    case (Inl e)
    with validate_samples_Inl [OF Inl] show ?thesis by (simp add: post_predict_batch_def)
  next
    case (Inr samples)
    then have "samples = body" by (simp add: validate_samples_Inr_iff)
    with Inr a show ?thesis by (auto simp: post_predict_batch_def predict_batch_def)
  qed
next
  assume a: "model st = Some m \<and> length body \<le> 100 \<and> (\<forall>s\<in>set body. valid_sample s)
        \<and> (\<forall>s\<in>set body. \<exists>r. fst (infer_one m s []) = Inr r)"
  then have v: "validate_samples body = Inr body" by (simp add: validate_samples_Inr_iff)
  from a have "\<forall>s\<in>set body. \<exists>r. fst (infer_one m s []) = Inr r" by simp
  from batch_loop_success [OF this, of "[]" "inference_log st"]
  obtain rs where rs: "fst (batch_loop m body [] (inference_log st)) = Inr rs"
      "length rs = length body" "\<forall>i<length body. fst (infer_one m (body ! i) []) = Inr (rs ! i)"
    by auto
  from rs(1) obtain lg where lg: "batch_loop m body [] (inference_log st) = (Inr rs, lg)"
    by (cases "batch_loop m body [] (inference_log st)") auto
  have res: "fst (post_predict_batch st body) = Inr \<lparr>predictions = rs, batch_size = int (length body)\<rparr>"
    using a v lg rs(2) by (simp add: post_predict_batch_def predict_batch_def)
  have "\<forall>i<length body. fst (post_predict st (body ! i)) = Inr (rs ! i)"
  proof (intro allI impI)
    fix i assume i: "i < length body"
    with a have "valid_sample (body ! i)" by simp
    then have "validate_IrisFeatures (body ! i) = Inr (body ! i)"
      by (simp add: validate_IrisFeatures_Inr_iff)
    moreover from a i rs(3) have "fst (predict st (body ! i)) = Inr (rs ! i)"
      by (intro predict_fst [of st m]) simp_all
    ultimately show "fst (post_predict st (body ! i)) = Inr (rs ! i)"
      by (simp add: post_predict_def)
  qed
  with res rs(2) show "\<exists>rs. fst (post_predict_batch st body)
               = Inr \<lparr>predictions = rs, batch_size = int (length body)\<rparr>
           \<and> length rs = length body
           \<and> (\<forall>i<length body. fst (post_predict st (body ! i)) = Inr (rs ! i))"
    by blast
qed

theorem predict_batch_amended_witness:
  "model app_loaded \<noteq> None \<and> length (replicate 101 sample_setosa) > 100
   \<and> (\<exists>e. post_predict_batch app_loaded (replicate 101 sample_setosa) = (Inl e, app_loaded)
          \<and> is_ValidationError e)
   \<and> model app_loaded = Some stump_model \<and> length [sample_setosa, sample_versicolor] \<le> 100
   \<and> valid_sample sample_setosa \<and> valid_sample sample_versicolor
   \<and> (\<exists>rs. fst (post_predict_batch app_loaded [sample_setosa, sample_versicolor])
               = Inr \<lparr>predictions = rs, batch_size = 2\<rparr>
           \<and> length rs = 2
           \<and> fst (post_predict app_loaded sample_setosa) = Inr (rs ! 0)
           \<and> fst (post_predict app_loaded sample_versicolor) = Inr (rs ! 1))"
proof -
  let ?b = "[sample_setosa, sample_versicolor]"
  have m: "model app_loaded = Some stump_model" by (simp add: app_loaded_def)
  have v: "\<forall>s\<in>set ?b. valid_sample s"
    using valid_sample_setosa valid_sample_versicolor by simp
  have i1: "\<exists>r. fst (infer_one stump_model sample_setosa []) = Inr r"
    using infer_one_success [OF stump_setosa(1) _ _ stump_setosa(2), of "[]"] by simp
  have i2: "\<exists>r. fst (infer_one stump_model sample_versicolor []) = Inr r"
    using infer_one_success [OF stump_versicolor(1) _ _ stump_versicolor(2), of "[]"] by simp
  from i1 i2 have i: "\<forall>s\<in>set ?b. \<exists>r. fst (infer_one stump_model s []) = Inr r" by simp
  have big: "\<exists>e. post_predict_batch app_loaded (replicate 101 sample_setosa) = (Inl e, app_loaded)
          \<and> is_ValidationError e"
    using predict_batch_amended [of app_loaded "replicate 101 sample_setosa" stump_model] m
    by simp
  obtain rs where rs: "fst (post_predict_batch app_loaded ?b)
               = Inr \<lparr>predictions = rs, batch_size = int (length ?b)\<rparr>"
      "length rs = length ?b" "\<forall>i<length ?b. fst (post_predict app_loaded (?b ! i)) = Inr (rs ! i)"
    using predict_batch_amended [of app_loaded ?b stump_model] m v i by auto
  from rs(3) [rule_format, of 0] rs(3) [rule_format, of 1]
  have "fst (post_predict app_loaded (?b ! 0)) = Inr (rs ! 0)"
    "fst (post_predict app_loaded (?b ! 1)) = Inr (rs ! 1)" by simp_all
  with rs(1,2) have small: "\<exists>rs. fst (post_predict_batch app_loaded ?b)
               = Inr \<lparr>predictions = rs, batch_size = 2\<rparr>
           \<and> length rs = 2
           \<and> fst (post_predict app_loaded sample_setosa) = Inr (rs ! 0)
           \<and> fst (post_predict app_loaded sample_versicolor) = Inr (rs ! 1)"
    by (intro exI [of _ rs]) simp
  from m valid_sample_setosa valid_sample_versicolor big small show ?thesis by simp
qed

text \<open>
  C3 as stated fails: 101 valid samples sent while no model is loaded get the 503 error
  "Model not loaded", which is not a ValidationError.
\<close>

theorem predict_batch_unloaded_counterexample:
  "length (replicate 101 sample_setosa) > 100
   \<and> fst (post_predict_batch app_unloaded (replicate 101 sample_setosa))
       = Inl (HTTPException 503 ''Model not loaded'')
   \<and> \<not> is_ValidationError (HTTPException 503 ''Model not loaded'')"
proof -
  have "validate_samples (replicate 101 sample_setosa) = Inr (replicate 101 sample_setosa)"
    using valid_sample_setosa by (simp add: validate_samples_Inr_iff)
  then show ?thesis
    by (simp add: post_predict_batch_def predict_batch_def app_unloaded_def)
qed

text \<open>
  C10: in predict_batch the check that a model is loaded comes before the check of the
  batch size: a batch of more than 100 samples sent while no model is loaded fails with
  the 503 error "Model not loaded", not with the 400 error of the batch size, and leaves
  the state as it was.
\<close>

theorem predict_batch_unloaded_oversized:
  "model st = None \<Longrightarrow> length samples > 100 \<Longrightarrow>
     predict_batch st samples = (Inl (HTTPException 503 ''Model not loaded''), st)
     \<and> is_ServiceUnavailable (HTTPException 503 ''Model not loaded'')
     \<and> \<not> is_ValidationError (HTTPException 503 ''Model not loaded'')"
  by (simp add: predict_batch_def)

theorem predict_batch_unloaded_oversized_witness:
  "model app_unloaded = None \<and> length (replicate 101 sample_setosa) > 100
   \<and> predict_batch app_unloaded (replicate 101 sample_setosa)
       = (Inl (HTTPException 503 ''Model not loaded''), app_unloaded)"
proof -
  have h1: "model app_unloaded = None" by (simp add: app_unloaded_def)
  have h2: "length (replicate 101 sample_setosa) > 100" by simp
  from predict_batch_unloaded_oversized [OF h1 h2] h1 h2 show ?thesis by simp
qed

section \<open>Startup\<close>

lemma try_paths_find:
  "try_paths ev ps =
     (case find (loadable ev) ps of
        None \<Rightarrow> None
      | Some p \<Rightarrow> (case joblib_load ev p of Inr m \<Rightarrow> Some (p, m) | Inl e \<Rightarrow> None))"
  by (induction ps) (auto simp: loadable_def split: sum.splits)


lemma load_model_fallback:
  "find (loadable ev) model_paths = None \<Longrightarrow>
     load_model ev st =
       (case train_and_save ev of
          (Inl e, written) \<Rightarrow> (Inl (RuntimeError ''Could not load or train model''), st, written)
        | (Inr m, written) \<Rightarrow> (Inr (), st\<lparr>model := Some m\<rparr>, written))"
  by (simp add: load_model_def try_paths_find)




lemma find_no_file: "find (loadable env_no_file) model_paths = None"
  by (simp add: model_paths_def loadable_def env_no_file_def)





section \<open>Health check\<close>

text \<open>
  C4, as amended: the health check succeeds, with model_loaded true, if and only if a
  model is loaded; it never returns model_loaded false: when no model is loaded it fails
  with the 503 error "Model not loaded". It leaves the state as it was, and it succeeds
  in the state that a successful load_model (from a file or by training) leaves.
\<close>

theorem health_check_amended:
  "(model st = None \<longrightarrow> health_check st = (Inl (HTTPException 503 ''Model not loaded''), st))
   \<and> (model st \<noteq> None \<longrightarrow>
        health_check st = (Inr \<lparr>status = ''healthy'', model_loaded = True,
                                timestamp = ''2024-01-01T00:00:00Z''\<rparr>, st))
   \<and> ((\<exists>r. fst (health_check st) = Inr r \<and> model_loaded r) \<longleftrightarrow> model st \<noteq> None)
   \<and> (\<forall>r. fst (health_check st) = Inr r \<longrightarrow> model_loaded r)
   \<and> snd (health_check st) = st
   \<and> (fst (load_model ev st) = Inr () \<longrightarrow>
        (\<exists>r. fst (health_check (fst (snd (load_model ev st)))) = Inr r \<and> model_loaded r))"
proof -
  have "fst (load_model ev st) = Inr () \<Longrightarrow> model (fst (snd (load_model ev st))) \<noteq> None"
    by (auto simp: load_model_def split: option.splits sum.splits prod.splits)
  then show ?thesis
    by (auto simp: health_check_def)
qed

theorem health_check_amended_witness:
  "model app_unloaded = None
   \<and> health_check app_unloaded = (Inl (HTTPException 503 ''Model not loaded''), app_unloaded)
   \<and> model app_loaded \<noteq> None
   \<and> health_check app_loaded = (Inr \<lparr>status = ''healthy'', model_loaded = True,
                                timestamp = ''2024-01-01T00:00:00Z''\<rparr>, app_loaded)
   \<and> fst (load_model env_no_file app_unloaded) = Inr ()
   \<and> (\<exists>r. fst (health_check (fst (snd (load_model env_no_file app_unloaded)))) = Inr r \<and> model_loaded r)"
proof -
  have a: "model app_unloaded = None" by (simp add: app_unloaded_def)
  have b: "model app_loaded \<noteq> None" by (simp add: app_loaded_def)
  have c: "fst (load_model env_no_file app_unloaded) = Inr ()"
    using find_no_file by (simp add: load_model_fallback train_and_save_def) (simp add: env_no_file_def)
  from health_check_amended [of app_unloaded env_no_file] health_check_amended [of app_loaded env_no_file] a b c
  show ?thesis by blast
qed

text \<open>
  C4 as stated fails: when no model is loaded the health check does not return false,
  it fails with the 503 error.
\<close>

theorem health_check_unloaded_counterexample:
  "model app_unloaded = None
   \<and> fst (health_check app_unloaded) = Inl (HTTPException 503 ''Model not loaded'')"
  by (simp add: health_check_def app_unloaded_def)

text \<open>
  C9: whenever the health check succeeds, the timestamp of its response is the constant
  string 2024-01-01T00:00:00Z, whatever the state and the time of the call.
\<close>

theorem health_timestamp_constant:
  "fst (health_check st) = Inr r \<Longrightarrow> timestamp r = ''2024-01-01T00:00:00Z''"
  by (auto simp: health_check_def split: if_splits)

theorem health_timestamp_constant_witness:
  "fst (health_check app_loaded)
     = Inr \<lparr>status = ''healthy'', model_loaded = True, timestamp = ''2024-01-01T00:00:00Z''\<rparr>
   \<and> timestamp \<lparr>status = ''healthy'', model_loaded = True, timestamp = ''2024-01-01T00:00:00Z''\<rparr>
     = ''2024-01-01T00:00:00Z''"
proof -
  have h: "fst (health_check app_loaded)
     = Inr \<lparr>status = ''healthy'', model_loaded = True, timestamp = ''2024-01-01T00:00:00Z''\<rparr>"
    by (simp add: health_check_def app_loaded_def)
  from h health_timestamp_constant [OF h] show ?thesis by simp
qed

section \<open>The root endpoint: the fallback is never taken\<close>

lemma root_always_file_response: "root is_file = Inr (FileResponse ''static/index.html'')"
  by (simp add: root_def new_FileResponse_def)

text \<open>
  C6: the request to / is meant to serve the static page when it is there and a JSON
  description of the API otherwise. When static/index.html is absent the handler still
  returns the file response, since constructing it raises nothing, and sending it fails:
  the client gets the status 500, not the JSON description.
\<close>

theorem get_root_without_asset:
  "\<not> no_static_files ''static/index.html''
   \<and> root no_static_files = Inr (FileResponse ''static/index.html'')
   \<and> get_root no_static_files = Inl (HTTPException 500 ''Internal Server Error'')
   \<and> get_root no_static_files \<noteq> Inr (Sent_json api_description)"
  by (simp add: get_root_def root_def new_FileResponse_def no_static_files_def)

section \<open>Splitting the data\<close>

text \<open>
  C7: split_data is deterministic: it always passes its seed on, so that the split is
  drawn from a generator seeded with it; two calls on the same data with the same seed
  and the same test fraction give the same partition, whatever the state of the global
  generator at each call.
\<close>

theorem split_data_deterministic:
  "split_data seeded splitter global X y test_size random_state
     = split_data seeded splitter global' X y test_size random_state
   \<and> split_data seeded splitter global X y test_size random_state
     = splitter (seeded random_state) X y test_size (Some y)"
  by (simp add: split_data_def train_test_split_def check_random_state_def)

lemma train_test_split_unseeded_depends_on_global:
  "train_test_split (\<lambda>s. nat s) block_splitter 0 [1, 2, 3, 4, 5::int] [0, 0, 1, 1, 1] (2/5) None (Some [0, 0, 1, 1, 1])
     = ([3, 4, 5], [1, 2])
   \<and> train_test_split (\<lambda>s. nat s) block_splitter 1 [1, 2, 3, 4, 5::int] [0, 0, 1, 1, 1] (2/5) None (Some [0, 0, 1, 1, 1])
     = ([4, 5, 1], [2, 3])"
  by (simp add: train_test_split_def check_random_state_def block_splitter_def Let_def rotate1_def
      rotate_def)

lemma split_data_run:
  "split_data (\<lambda>s. nat s) block_splitter 0 [1, 2, 3, 4, 5::int] [0, 0, 1, 1, 1] (2/5) 1 = ([4, 5, 1], [2, 3])
   \<and> split_data (\<lambda>s. nat s) block_splitter 7 [1, 2, 3, 4, 5::int] [0, 0, 1, 1, 1] (2/5) 1 = ([4, 5, 1], [2, 3])"
  by (simp add: split_data_def train_test_split_def check_random_state_def block_splitter_def Let_def rotate1_def
      rotate_def)

end
